theory Spec2Isabelle
  imports Main "HOL-Library.Word"
begin

unbundle bit_operations_syntax

section \<open>Text helpers\<close>

text \<open>
  Decimal output of an unsigned number, as \<^verbatim>\<open>operator<<\<close> of an output stream prints it.
\<close>

fun show_nat :: "nat \<Rightarrow> string" where
  "show_nat n =
     (if n < 10 then [''0123456789'' ! n]
      else show_nat (n div 10) @ [''0123456789'' ! (n mod 10)])"

declare show_nat.simps [simp del]

definition show_int :: "int \<Rightarrow> string" where
  "show_int i = (if i < 0 then CHR ''-'' # show_nat (nat (- i)) else show_nat (nat i))"

text \<open>A \<^verbatim>\<open>bool\<close> written to a stream without \<^verbatim>\<open>boolalpha\<close> prints as 1 or 0.\<close>

definition show_bool :: "bool \<Rightarrow> string" where
  "show_bool b = (if b then ''1'' else ''0'')"

text \<open>
  \<^verbatim>\<open>boost::to_upper_copy\<close> in the classic locale: the 26 lower-case ASCII letters are
  replaced by their upper-case forms, every other character is kept.
\<close>

definition to_upper_char :: "char \<Rightarrow> char" where
  "to_upper_char c =
     (case map_of (zip ''abcdefghijklmnopqrstuvwxyz'' ''ABCDEFGHIJKLMNOPQRSTUVWXYZ'') c of
        Some u \<Rightarrow> u
      | None \<Rightarrow> c)"

definition to_upper_copy :: "string \<Rightarrow> string" where
  "to_upper_copy s = map to_upper_char s"

text \<open>
  \<^verbatim>\<open>boost::algorithm::hex\<close> over a byte range: two digits per byte, high nibble first,
  taken from \<^verbatim>\<open>0123456789ABCDEF\<close>.
\<close>

definition hex_digit :: "nat \<Rightarrow> char" where
  "hex_digit n = ''0123456789ABCDEF'' ! n"

definition hex_byte :: "8 word \<Rightarrow> string" where
  "hex_byte b = [hex_digit (unat (drop_bit 4 b)), hex_digit (unat (b AND 15))]"

definition hex :: "8 word list \<Rightarrow> string" where
  "hex bs = concat (map hex_byte bs)"

section \<open>Certificate verification (src/net/ssl_verification.cc)\<close>

text \<open>
  The library objects the verifier reads. Of a certificate it uses the bytes that
  \<^verbatim>\<open>X509_digest\<close> leaves in the first \<^verbatim>\<open>size\<close> places of its buffer (the SHA-1
  digest) and the one-line subject name: \<open>X509_NAME_oneline cert n\<close> is the text that
  the library function of that name writes into a buffer of \<open>n\<close> bytes for the
  certificate's subject (how it shortens a name that does not fit is the library's
  matter). Of the verification context it uses the current certificate and the library's
  error code with its message.
\<close>

record X509 =
  X509_digest :: "8 word list"
  X509_NAME_oneline :: "nat \<Rightarrow> string"

record verify_context =
  current_cert :: X509
  ctx_error :: int
  ctx_error_string :: string

datatype Severity = FATAL | ERROR | MSG | DEBUG | INSANE

text \<open>
  What one invocation does besides returning: log records (\<open>None\<close> is a record written
  with \<^verbatim>\<open>BOOST_LOG\<close>, without a severity of its own) and calls of the default verifier.
\<close>

datatype Verify_Event =
    Log_Record "Severity option" string
  | Default_Call bool

text \<open>
  Modelled from the spec: the class declaration (ssl_verification.h) is not among the
  source files. The members are those the constructor and the call operator use,
  named without the trailing underscore of the source: \<open>default_verifier\<close> is
  \<^verbatim>\<open>default_\<close>, the default PKI verifier built from the host name;
  \<open>pinned_fingerprint\<close> is \<^verbatim>\<open>fingerprint_\<close>; \<open>pos\<close> is \<^verbatim>\<open>pos_\<close>, an unsigned
  counter that starts at 0; \<open>result\<close> is \<^verbatim>\<open>result_\<close>, which starts as false.
\<close>

record Verification =
  default_verifier :: "bool \<Rightarrow> verify_context \<Rightarrow> bool"
  pinned_fingerprint :: string
  pos :: "32 word"
  result :: bool

text \<open>
  The constructor. \<open>rfc2818_verification hostname\<close> stands for the library's host name
  verifier.
\<close>

definition Verification ::
  "(string \<Rightarrow> bool \<Rightarrow> verify_context \<Rightarrow> bool) \<Rightarrow> string \<Rightarrow> string \<Rightarrow> Verification" where
  "Verification rfc2818_verification hostname fingerprint =
     \<lparr> default_verifier = rfc2818_verification hostname,
       pinned_fingerprint = to_upper_copy fingerprint,
       pos = 0,
       result = False \<rparr>"

text \<open>
  \<^verbatim>\<open>Verification::operator()\<close>: the returned value, the verifier afterwards and what
  the invocation logged and called, in order.
\<close>

definition verify ::
  "bool \<Rightarrow> verify_context \<Rightarrow> Verification \<Rightarrow> bool \<times> Verification \<times> Verify_Event list" where
  "verify preverified ctx v0 =
     (let v = v0\<lparr>pos := pos v0 + 1\<rparr>;
          cert = current_cert ctx;
          fp = hex (X509_digest cert);
          logs =
            [Log_Record None (''SHA1 fingerprint of certificate  (position ''
               @ show_nat (unat (pos v)) @ ''): '' @ fp),
             Log_Record None (''Certificate subject: '' @ X509_NAME_oneline cert 128),
             Log_Record None (''Pre-Verification result: '' @ show_bool preverified)]
      in if result v then (result v, v, logs)
         else if pinned_fingerprint v \<noteq> [] \<and> pos v = 1 then
           (if pos v = 1 then
              (let v' = v\<lparr>result := (pinned_fingerprint v = fp)\<rparr>
               in (result v', v',
                   logs @ [Log_Record None ''Verifying fingerprint ...''] @
                   (if result v'
                    then [Log_Record None ''Fingerprint matches. Authentication finished.'']
                    else [Log_Record (Some FATAL)
                            (''Given fingerprint '' @ pinned_fingerprint v
                               @ '' does not match the one of the certificate: '' @ fp)])))
            else (result v, v, logs))
         else
           (let r = default_verifier v preverified ctx
            in (r, v,
                logs @ [Default_Call preverified] @
                (if \<not> r
                 then [Log_Record (Some FATAL)
                         (''Certificate verification failed: '' @ ctx_error_string ctx
                            @ '' (return code: '' @ show_int (ctx_error ctx) @ '')'')]
                 else []))))"

definition default_consulted :: "Verify_Event list \<Rightarrow> bool" where
  "default_consulted evs = (\<exists>b \<in> set evs. case b of Default_Call _ \<Rightarrow> True | _ \<Rightarrow> False)"

section \<open>The IMAP session (the client)\<close>

subsection \<open>Enumerations\<close>

text \<open>
  Modelled from the spec: the enumerations are declared in headers that are not among
  the source files. \<open>State\<close> lists the names of \<^verbatim>\<open>state_map\<close> in its order, between
  the two sentinels the \<^verbatim>\<open>switch\<close> of \<^verbatim>\<open>command()\<close> names (\<open>FIRST\<close> and \<open>LAST\<close> are
  \<^verbatim>\<open>FIRST_\<close> and \<^verbatim>\<open>LAST_\<close>). \<open>Unnamed n\<close> is the value \<open>n\<close> places past \<^verbatim>\<open>LAST_\<close>, which
  the integer increment can produce and which has no enumerator.
\<close>

datatype State =
    FIRST
  | DISCONNECTED
  | ESTABLISHED
  | GOT_INITIAL_CAPABILITIES
  | LOGGED_IN
  | GOT_CAPABILITIES
  | SELECTED_MAILBOX
  | FETCHING
  | FETCHED
  | STORED
  | EXPUNGED
  | LOGGING_OUT
  | LOGGED_OUT
  | END
  | LAST
  | Unnamed nat

text \<open>\<^verbatim>\<open>operator++\<close> and \<^verbatim>\<open>operator+\<close> with 1: the next value in the enumeration's order.\<close>

fun State_succ :: "State \<Rightarrow> State" where
  "State_succ FIRST = DISCONNECTED"
| "State_succ DISCONNECTED = ESTABLISHED"
| "State_succ ESTABLISHED = GOT_INITIAL_CAPABILITIES"
| "State_succ GOT_INITIAL_CAPABILITIES = LOGGED_IN"
| "State_succ LOGGED_IN = GOT_CAPABILITIES"
| "State_succ GOT_CAPABILITIES = SELECTED_MAILBOX"
| "State_succ SELECTED_MAILBOX = FETCHING"
| "State_succ FETCHING = FETCHED"
| "State_succ FETCHED = STORED"
| "State_succ STORED = EXPUNGED"
| "State_succ EXPUNGED = LOGGING_OUT"
| "State_succ LOGGING_OUT = LOGGED_OUT"
| "State_succ LOGGED_OUT = END"
| "State_succ END = LAST"
| "State_succ LAST = Unnamed 1"
| "State_succ (Unnamed n) = Unnamed (Suc n)"

text \<open>
  Modelled from the spec: the capabilities the client asks for by name, and the others;
  the three tagged status values; the flags that the \<^verbatim>\<open>switch\<close> of \<^verbatim>\<open>imap_flag\<close>
  lists; the three modes of a STORE command, of which the client names \<open>REPLACE\<close>.
\<close>

datatype Capability = LOGINDISABLED | UIDPLUS | Other_Capability string

datatype Status = OK | NO | BAD

datatype Flag =
    Flag_FIRST
  | ANSWERED
  | SEEN
  | FLAGGED
  | DELETED
  | DRAFT
  | RECENT
  | Flag_LAST

datatype Store_Mode = REPLACE | ADD | REMOVE

datatype Section = HEADER_FIELDS

datatype Fetch_Attribute =
    Fetch_UID
  | Fetch_FLAGS
  | BODY_PEEK "(Section \<times> string list) option"

text \<open>
  Modelled from the spec: \<^verbatim>\<open>operator<<\<close> of a status is not in the sources; it is taken
  to print the enumerator's name.
\<close>

fun show_Status :: "Status \<Rightarrow> string" where
  "show_Status OK = ''OK''"
| "show_Status NO = ''NO''"
| "show_Status BAD = ''BAD''"

subsection \<open>Commands and the writer\<close>

text \<open>
  A sequence set handed to the writer is a vector of ranges. The client builds it either
  literally or by \<^verbatim>\<open>uids_.copy(set)\<close>; the class of \<^verbatim>\<open>uids_\<close> is not in the sources, so the
  second form names the UIDs that were recorded, in recording order, and leaves their
  grouping into ranges to that class.
\<close>

datatype Sequence =
    Ranges "(32 word \<times> 32 word) list"
  | Copied_From "32 word list"

text \<open>One constructor per operation of the writer that the client calls, with its arguments.\<close>

datatype Command =
    Cmd_Capability
  | Cmd_Login string string
  | Cmd_Select string
  | Cmd_Fetch Sequence "Fetch_Attribute list"
  | Cmd_Uid_Store Sequence "Flag list" Store_Mode bool
  | Cmd_Uid_Expunge Sequence
  | Cmd_Expunge
  | Cmd_Logout

subsection \<open>Error codes\<close>

datatype Error_Category = system_category | ssl_category | misc_category | other_category

record error_code =
  category :: Error_Category
  ec_value :: int

text \<open>An error code converts to true when its value is not 0.\<close>

definition is_error :: "error_code \<Rightarrow> bool" where
  "is_error ec = (ec_value ec \<noteq> 0)"

text \<open>
  Constants and macros of the libraries (OpenSSL's err.h and ssl.h, errno on Linux,
  Boost.Asio's error.hpp), with the values they have there.
\<close>

definition ERR_LIB_SSL :: int where "ERR_LIB_SSL = 20"
definition SSL_R_SHORT_READ :: int where "SSL_R_SHORT_READ = 219"
definition SSL_R_DECRYPTION_FAILED_OR_BAD_RECORD_MAC :: int where
  "SSL_R_DECRYPTION_FAILED_OR_BAD_RECORD_MAC = 281"

definition ERR_PACK :: "int \<Rightarrow> int \<Rightarrow> int \<Rightarrow> int" where
  "ERR_PACK l f r = (l AND 0xFF) * 0x1000000 OR (f AND 0xFFF) * 0x1000 OR (r AND 0xFFF)"

definition ERR_GET_REASON :: "int \<Rightarrow> int" where
  "ERR_GET_REASON l = l AND 0xFFF"

definition operation_canceled :: int where "operation_canceled = 125"
definition eof :: int where "eof = 2"

text \<open>What \<^verbatim>\<open>THROW_ERROR(ec)\<close> and \<^verbatim>\<open>THROW_MSG(text)\<close> raise.\<close>

datatype Error = Error_Code error_code | Error_Msg string

subsection \<open>The session\<close>

record Options =
  host :: string
  username :: string
  password :: string
  mailbox :: string
  maildir :: string
  cipher :: string
  use_ssl :: bool
  greeting_wait :: nat
  del :: bool

text \<open>What the buffer proxy points to; \<open>No_Buffer\<close> before its first \<^verbatim>\<open>set\<close>.\<close>

datatype Buffer_Target = No_Buffer | Memory_Buffer | File_Buffer

text \<open>
  The calls the session makes on the objects it owns (transport, timers, signal set,
  maildir, buffer proxy, file buffer, capability set), in the order it makes them:
  \<open>Capabilities_Clear\<close> is the call \<^verbatim>\<open>capabilities_.clear()\<close>. Log records are left out,
  except the one of a delivered signal.
\<close>

datatype Event =
    Async_Resolve
  | Async_Connect
  | Async_Handshake
  | Push_Write "(string \<times> Command) option"
  | Async_Read_Some
  | Async_Shutdown
  | Cancel
  | Close
  | Signals_Async_Wait
  | Signals_Cancel
  | Login_Timer_Wait nat
  | Fetch_Timer_Start
  | Fetch_Timer_Wait
  | Fetch_Timer_Cancel
  | Print_Fetch_Stats "64 word"
  | Proxy_Set Buffer_Target
  | Capabilities_Clear
  | Maildir_Create_Tmp_Name string
  | File_Open string
  | File_Close
  | Maildir_Move_To_New
  | Maildir_Move_To_Cur string
  | Log Severity string

text \<open>
  Modelled from the spec: the class declaration (client.h) is not among the source
  files. The members are those the member functions use, named without the trailing
  underscore of the source (\<open>state\<close> is \<^verbatim>\<open>state_\<close>, and so on).
  \<^item> \<open>tags\<close> is the supply of tags of the writer: \<open>tags s 0\<close> is the tag of the next command.
  \<^item> \<open>cmd\<close> is the buffer the writer fills through \<^verbatim>\<open>to_cmd\<close>: the last command produced,
    with its tag.
  \<^item> \<open>tmp_names\<close> is the supply of names of \<^verbatim>\<open>maildir_.create_tmp_name\<close>.
  \<^item> \<open>uids\<close> holds the UIDs recorded by \<^verbatim>\<open>uids_.push\<close> since the last \<^verbatim>\<open>uids_.clear()\<close>.
  \<^item> \<open>file_buffer\<close> is the name of the open temporary file, \<open>None\<close> when it is closed.
  \<^item> \<open>fetched_messages\<close> and \<open>signaled\<close> are counters, taken to be of type
    \<^verbatim>\<open>size_t\<close> and \<^verbatim>\<open>unsigned\<close>; \<open>exists\<close>, \<open>recent\<close> and \<open>uidvalidity\<close> take the
    \<^verbatim>\<open>uint32_t\<close> arguments of their callbacks.
  \<^item> \<open>trace\<close> collects the events.
\<close>

record Client =
  opts :: Options
  state :: State
  capabilities :: "Capability set"
  tag_to_state :: "string \<rightharpoonup> State"
  tags :: "nat \<Rightarrow> string"
  cmd :: "(string \<times> Command) option"
  exists :: "32 word"
  recent :: "32 word"
  uidvalidity :: "32 word"
  uids :: "32 word list"
  flags :: string
  full_body :: bool
  tmp_names :: "nat \<Rightarrow> string"
  file_buffer :: "string option"
  buffer_proxy :: Buffer_Target
  buffer :: string
  tag_buffer :: string
  fetched_messages :: "64 word"
  signaled :: "32 word"
  trace :: "Event list"

text \<open>
  A member function either returns, with the session as it has become, or throws, with
  the error and the session as it was at the throw.
\<close>

type_synonym Outcome = "(Error \<times> Client) + Client"

definition emit :: "Event \<Rightarrow> Client \<Rightarrow> Client" where
  "emit e s = s\<lparr>trace := trace s @ [e]\<rparr>"

text \<open>
  Modelled from the spec: a call of the writer produces the command into the command
  buffer and hands out a fresh tag.
\<close>

definition writer :: "Command \<Rightarrow> Client \<Rightarrow> string \<times> Client" where
  "writer c s =
     (let tag = tags s 0
      in (tag, s\<lparr>tags := (\<lambda>n. tags s (Suc n)), cmd := Some (tag, c)\<rparr>))"

definition register_tag :: "string \<Rightarrow> State \<Rightarrow> Client \<Rightarrow> Client" where
  "register_tag tag st s = s\<lparr>tag_to_state := (tag_to_state s)(tag \<mapsto> st)\<rparr>"

definition do_write :: "Client \<Rightarrow> Client" where
  "do_write s = emit (Push_Write (cmd s)) s"

definition do_signal_wait :: "Client \<Rightarrow> Client" where
  "do_signal_wait s = emit Signals_Async_Wait s"

definition do_shutdown :: "Client \<Rightarrow> Client" where
  "do_shutdown s = emit Async_Shutdown s"

definition do_quit :: "Client \<Rightarrow> Client" where
  "do_quit s = do_shutdown (emit Cancel s)"

definition do_read :: "Client \<Rightarrow> Client" where
  "do_read s = emit Async_Read_Some s"

definition print_fetch_stats :: "Client \<Rightarrow> Client" where
  "print_fetch_stats s = emit (Print_Fetch_Stats (fetched_messages s)) s"

definition resume_fetch_timer :: "Client \<Rightarrow> Client" where
  "resume_fetch_timer s = emit Fetch_Timer_Wait s"

definition start_fetch_timer :: "Client \<Rightarrow> Client" where
  "start_fetch_timer s = resume_fetch_timer (emit Fetch_Timer_Start s)"

definition stop_fetch_timer :: "Client \<Rightarrow> Client" where
  "stop_fetch_timer s = emit Fetch_Timer_Cancel (print_fetch_stats s)"


text \<open>\<^verbatim>\<open>capabilities_.clear()\<close>: the set is emptied, and the call is recorded.\<close>

definition capabilities_clear :: "Client \<Rightarrow> Client" where
  "capabilities_clear s = emit Capabilities_Clear (s\<lparr>capabilities := {}\<rparr>)"

definition do_login :: "Client \<Rightarrow> Outcome" where
  "do_login s =
     (if LOGINDISABLED \<in> capabilities s
      then Inl (Error_Msg ''Cannot login because server has LOGINDISABLED'', s)
      else
        (let s1 = capabilities_clear s;
             (tag, s2) = writer (Cmd_Login (username (opts s1)) (password (opts s1))) s1;
             s3 = register_tag tag LOGGED_IN s2;
             s4 = s3\<lparr>exists := 0, recent := 0, uidvalidity := 0, uids := []\<rparr>
         in Inr (do_write s4)))"

definition do_select :: "Client \<Rightarrow> Client" where
  "do_select s =
     (let (tag, s1) = writer (Cmd_Select (mailbox (opts s))) s
      in do_write (register_tag tag SELECTED_MAILBOX s1))"

definition do_logout :: "Client \<Rightarrow> Client" where
  "do_logout s =
     (let (tag, s1) = writer Cmd_Logout s;
          s2 = register_tag tag LOGGED_OUT s1
      in do_write (s2\<lparr>state := LOGGING_OUT\<rparr>))"

definition do_fetch :: "Client \<Rightarrow> Client" where
  "do_fetch s =
     (let set = Ranges [(1, 0xFFFFFFFF)];
          atts = [Fetch_UID, Fetch_FLAGS,
                  BODY_PEEK (Some (HEADER_FIELDS, [''date'', ''from'', ''subject''])),
                  BODY_PEEK None];
          (tag, s1) = writer (Cmd_Fetch set atts) s;
          s2 = register_tag tag FETCHED s1
      in do_write (start_fetch_timer (s2\<lparr>state := FETCHING\<rparr>)))"

definition do_fetch_or_logout :: "Client \<Rightarrow> Client" where
  "do_fetch_or_logout s = (if exists s \<noteq> 0 then do_fetch s else do_logout s)"

definition do_store :: "Client \<Rightarrow> Client" where
  "do_store s =
     (let flags = [DELETED];
          set = Copied_From (uids s);
          (tag, s1) = writer (Cmd_Uid_Store set flags REPLACE True) s
      in do_write (register_tag tag STORED s1))"

definition do_store_or_logout :: "Client \<Rightarrow> Client" where
  "do_store_or_logout s = (if del (opts s) then do_store s else do_logout s)"

definition has_uidplus :: "Client \<Rightarrow> bool" where
  "has_uidplus s = (UIDPLUS \<in> capabilities s)"

definition do_uid_expunge :: "Client \<Rightarrow> Client" where
  "do_uid_expunge s =
     (let set = Copied_From (uids s);
          (tag, s1) = writer (Cmd_Uid_Expunge set) s
      in do_write (register_tag tag EXPUNGED s1))"

definition do_expunge :: "Client \<Rightarrow> Client" where
  "do_expunge s =
     (let (tag, s1) = writer Cmd_Expunge s
      in do_write (register_tag tag EXPUNGED s1))"

definition do_uid_or_simple_expunge :: "Client \<Rightarrow> Client" where
  "do_uid_or_simple_expunge s = (if has_uidplus s then do_uid_expunge s else do_expunge s)"

text \<open>
  \<^verbatim>\<open>command()\<close> and \<^verbatim>\<open>do_capabilities()\<close> call each other: with capabilities at hand,
  \<^verbatim>\<open>do_capabilities\<close> advances the state and dispatches again.
\<close>

function command :: "Client \<Rightarrow> Outcome" and do_capabilities :: "Client \<Rightarrow> Outcome" where
  "command s =
     (case state s of
        FIRST \<Rightarrow> Inr s
      | LAST \<Rightarrow> Inr s
      | DISCONNECTED \<Rightarrow> Inr s
      | ESTABLISHED \<Rightarrow> Inr s
      | GOT_INITIAL_CAPABILITIES \<Rightarrow> do_login s
      | LOGGED_IN \<Rightarrow> do_capabilities s
      | GOT_CAPABILITIES \<Rightarrow> Inr (do_select s)
      | SELECTED_MAILBOX \<Rightarrow> Inr (do_fetch_or_logout s)
      | FETCHING \<Rightarrow> Inr s
      | FETCHED \<Rightarrow> Inr (do_store_or_logout (stop_fetch_timer s))
      | STORED \<Rightarrow> Inr (do_uid_or_simple_expunge s)
      | EXPUNGED \<Rightarrow> Inr (do_logout s)
      | LOGGING_OUT \<Rightarrow> Inr s
      | LOGGED_OUT \<Rightarrow> Inr (do_quit s)
      | END \<Rightarrow> Inr s
      | Unnamed n \<Rightarrow> Inr s)"
| "do_capabilities s =
     (if capabilities s \<noteq> {}
      then command (s\<lparr>state := State_succ (state s)\<rparr>)
      else
        (let (tag, s1) = writer Cmd_Capability s
         in Inr (do_write (register_tag tag (State_succ (state s1)) s1))))"
  by pat_completeness auto
termination
  by (relation "measure (\<lambda>x. case x of
        Inl s \<Rightarrow> (if state s = LOGGED_IN then 2 else 0)
      | Inr s \<Rightarrow> (if State_succ (state s) = LOGGED_IN then 3 else 1))")
    auto

declare command.simps [simp del] do_capabilities.simps [simp del]

subsection \<open>Callbacks of the parser\<close>

definition imap_status_code_capability_begin :: "Client \<Rightarrow> Client" where
  "imap_status_code_capability_begin s = capabilities_clear s"

definition imap_capability :: "Capability \<Rightarrow> Client \<Rightarrow> Client" where
  "imap_capability capability s = s\<lparr>capabilities := insert capability (capabilities s)\<rparr>"

definition imap_tagged_status_end :: "Status \<Rightarrow> Client \<Rightarrow> Outcome" where
  "imap_tagged_status_end c s =
     (let tag = tag_buffer s
      in if c \<noteq> OK
         then Inl (Error_Msg (''Command failed: '' @ show_Status c @ '' - '' @ buffer s), s)
         else (case tag_to_state s tag of
                 None \<Rightarrow> Inl (Error_Msg (''Got unknown tag: '' @ tag), s)
               | Some st \<Rightarrow>
                   command (s\<lparr>state := st, tag_to_state := (tag_to_state s)(tag := None)\<rparr>)))"

definition imap_data_exists :: "32 word \<Rightarrow> Client \<Rightarrow> Client" where
  "imap_data_exists number s = s\<lparr>exists := number\<rparr>"

definition imap_data_recent :: "32 word \<Rightarrow> Client \<Rightarrow> Client" where
  "imap_data_recent number s = s\<lparr>recent := number\<rparr>"

definition imap_status_code_uidvalidity :: "32 word \<Rightarrow> Client \<Rightarrow> Client" where
  "imap_status_code_uidvalidity n s = s\<lparr>uidvalidity := n\<rparr>"

definition imap_data_fetch_begin :: "32 word \<Rightarrow> Client \<Rightarrow> Client" where
  "imap_data_fetch_begin number s = s\<lparr>flags := []\<rparr>"

definition imap_section_empty :: "Client \<Rightarrow> Client" where
  "imap_section_empty s = s\<lparr>full_body := True\<rparr>"

definition imap_body_section_inner :: "Client \<Rightarrow> Client" where
  "imap_body_section_inner s =
     (if state s = FETCHING then
        (if full_body s then
           (let filename = tmp_names s 0;
                s1 = emit (Maildir_Create_Tmp_Name filename)
                       (s\<lparr>tmp_names := (\<lambda>n. tmp_names s (Suc n))\<rparr>);
                s2 = emit (File_Open filename) (s1\<lparr>file_buffer := Some filename\<rparr>)
            in emit (Proxy_Set File_Buffer) (s2\<lparr>buffer_proxy := File_Buffer\<rparr>))
         else s)
      else s)"

definition imap_body_section_end :: "Client \<Rightarrow> Client" where
  "imap_body_section_end s =
     (if state s = FETCHING then
        (if full_body s then
           (let s1 = emit (Proxy_Set Memory_Buffer) (s\<lparr>buffer_proxy := Memory_Buffer\<rparr>);
                s2 = emit File_Close (s1\<lparr>file_buffer := None\<rparr>);
                s3 = (if flags s2 = [] then emit Maildir_Move_To_New s2
                      else emit (Maildir_Move_To_Cur (flags s2)) s2);
                s4 = s3\<lparr>full_body := False\<rparr>
            in s4\<lparr>fetched_messages := fetched_messages s4 + 1\<rparr>)
         else s)
      else s)"

fun imap_flag :: "Flag \<Rightarrow> Client \<Rightarrow> Client" where
  "imap_flag ANSWERED s = s\<lparr>flags := flags s @ ''R''\<rparr>"
| "imap_flag SEEN s = s\<lparr>flags := flags s @ ''S''\<rparr>"
| "imap_flag FLAGGED s = s\<lparr>flags := flags s @ ''F''\<rparr>"
| "imap_flag DRAFT s = s\<lparr>flags := flags s @ ''D''\<rparr>"
| "imap_flag RECENT s = s"
| "imap_flag DELETED s = s"
| "imap_flag Flag_FIRST s = s"
| "imap_flag Flag_LAST s = s"

definition imap_uid :: "32 word \<Rightarrow> Client \<Rightarrow> Client" where
  "imap_uid number s = (if state s = FETCHING then s\<lparr>uids := uids s @ [number]\<rparr> else s)"

subsection \<open>Completion handlers\<close>

text \<open>
  An asynchronous call is an event of the trace; its completion handler, the lambda of
  the source, is a function of the error code it is handed and of the session at that
  moment.
\<close>

definition do_signal_wait_handler :: "error_code \<Rightarrow> int \<Rightarrow> Client \<Rightarrow> Outcome" where
  "do_signal_wait_handler ec signal_number s =
     (if is_error ec then
        (if ec_value ec = operation_canceled then Inr s else Inl (Error_Code ec, s))
      else
        (let s1 = emit (Log ERROR (''Got signal: '' @ show_int signal_number)) s
         in if signaled s1 \<noteq> 0
            then Inl (Error_Msg (''Got a signal ('' @ show_int signal_number
                        @ '') the second time - immediate exit''), s1)
            else Inr (do_quit (do_signal_wait (s1\<lparr>signaled := signaled s1 + 1\<rparr>)))))"






definition do_resolve :: "Client \<Rightarrow> Client" where
  "do_resolve s = emit Async_Resolve s"



text \<open>
  The handler of a read. \<open>lexer_read\<close> stands for \<^verbatim>\<open>lexer_.read\<close>, which is not in the
  sources: it runs the parser over the bytes received, and the parser calls the
  callbacks above.
\<close>

definition do_read_handler ::
  "(8 word list \<Rightarrow> Client \<Rightarrow> Outcome) \<Rightarrow> error_code \<Rightarrow> 8 word list \<Rightarrow> Client \<Rightarrow> Outcome" where
  "do_read_handler lexer_read ec input s =
     (if is_error ec then
        (if state s = LOGGED_OUT
            \<and> ((category ec = ssl_category
                  \<and> ec_value ec = ERR_PACK ERR_LIB_SSL 0 SSL_R_SHORT_READ)
               \<or> (category ec = misc_category \<and> ec_value ec = eof))
         then Inr s
         else Inl (Error_Code ec, s))
      else
        (case lexer_read input s of
           Inl e \<Rightarrow> Inl e
         | Inr s1 \<Rightarrow> Inr (if state s1 \<noteq> LOGGED_OUT then do_read s1 else s1)))"

definition do_shutdown_handler :: "error_code \<Rightarrow> Client \<Rightarrow> Outcome" where
  "do_shutdown_handler ec s =
     (let finish = (\<lambda>t. Inr (emit Signals_Cancel (emit Close t)))
      in if is_error ec then
           (if category ec = ssl_category
               \<and> ec_value ec = ERR_PACK ERR_LIB_SSL 0 SSL_R_SHORT_READ
            then finish s
            else if category ec = ssl_category
               \<and> ERR_GET_REASON (ec_value ec) = SSL_R_DECRYPTION_FAILED_OR_BAD_RECORD_MAC
            then finish s
            else Inl (Error_Code ec, s))
         else finish s)"

text \<open>
  Modelled from the spec: the initial values of the members are declared in client.h,
  which is not among the source files. A session starts disconnected, with nothing
  received, recorded or registered, no signal seen, no message fetched, the file buffer
  closed and the buffer proxy not set.
\<close>

definition initial_members ::
  "Options \<Rightarrow> (nat \<Rightarrow> string) \<Rightarrow> (nat \<Rightarrow> string) \<Rightarrow> Client" where
  "initial_members options tag_supply name_supply =
     \<lparr> opts = options, state = DISCONNECTED, capabilities = {},
       tag_to_state = Map.empty, tags = tag_supply, cmd = None,
       exists = 0, recent = 0, uidvalidity = 0, uids = [], flags = [],
       full_body = False, tmp_names = name_supply, file_buffer = None,
       buffer_proxy = No_Buffer, buffer = [], tag_buffer = [],
       fetched_messages = 0, signaled = 0, trace = [] \<rparr>"

text \<open>
  The constructor: after the members are initialised its body points the buffer proxy to
  the memory buffer, waits for a signal and resolves the host.
\<close>

definition Client :: "Options \<Rightarrow> (nat \<Rightarrow> string) \<Rightarrow> (nat \<Rightarrow> string) \<Rightarrow> Client" where
  "Client options tag_supply name_supply =
     (let s = initial_members options tag_supply name_supply;
          s1 = emit (Proxy_Set Memory_Buffer) (s\<lparr>buffer_proxy := Memory_Buffer\<rparr>)
      in do_resolve (do_signal_wait s1))"

subsection \<open>The flag letters as the specification lists them\<close>

text \<open>
  The table of the specification: \<^verbatim>\<open>\Answered\<close> gives R, \<^verbatim>\<open>\Seen\<close> S, \<^verbatim>\<open>\Flagged\<close> F,
  \<^verbatim>\<open>\Draft\<close> D; \<^verbatim>\<open>\Recent\<close>, \<^verbatim>\<open>\Deleted\<close> and the sentinels give nothing.
\<close>

definition spec_flag_letter :: "Flag \<Rightarrow> string" where
  "spec_flag_letter f =
     (if f = ANSWERED then ''R'' else if f = SEEN then ''S''
      else if f = FLAGGED then ''F'' else if f = DRAFT then ''D'' else [])"

definition spec_flag_suffix :: "Flag list \<Rightarrow> string" where
  "spec_flag_suffix fs = concat (map spec_flag_letter fs)"

subsection \<open>A session to run examples on\<close>

definition example_options :: Options where
  "example_options =
     \<lparr> host = ''mail.example.org'', username = ''juser'', password = ''secret'',
       mailbox = ''INBOX'', maildir = ''/home/juser/Maildir'', cipher = ''HIGH'',
       use_ssl = True, greeting_wait = 100, del = True \<rparr>"

definition example_client :: Client where
  "example_client =
     Client example_options (\<lambda>n. CHR ''A'' # show_nat n) (\<lambda>n. ''tmp.'' @ show_nat n)"

section \<open>Properties of the verifier\<close>

lemma hex_digit_upper: "n < 16 \<Longrightarrow> to_upper_char (hex_digit n) = hex_digit n"
proof -
  have "list_all (\<lambda>n. to_upper_char (hex_digit n) = hex_digit n) [0..<16]"
    by code_simp
  then show "n < 16 \<Longrightarrow> to_upper_char (hex_digit n) = hex_digit n"
    unfolding list_all_iff by simp
qed

lemma high_nibble_bound: "unat (drop_bit 4 (b :: 8 word)) < 16"
proof -
  have "unat b < 256"
    using unsigned_less [of b, where 'a = nat] by simp
  then have "unat b div 16 < 16" by simp
  then show ?thesis by (simp add: drop_bit_eq_div unat_div)
qed

lemma low_nibble_bound: "unat ((b :: 8 word) AND 15) < 16"
proof -
  have "unat (b AND 15) \<le> unat (15 :: 8 word)"
    by (rule word_and_le1 [THEN word_le_nat_alt [THEN iffD1]])
  then show ?thesis by simp
qed

lemma hex_byte_upper: "map to_upper_char (hex_byte b) = hex_byte b"
  by (simp add: hex_byte_def hex_digit_upper high_nibble_bound low_nibble_bound)

lemma hex_upper: "to_upper_copy (hex bs) = hex bs"
  by (induction bs) (simp_all add: hex_def to_upper_copy_def hex_byte_upper)

lemma to_upper_copy_empty: "to_upper_copy s = [] \<longleftrightarrow> s = []"
  by (simp add: to_upper_copy_def)

lemma Verification_initial:
  "pos (Verification d h f) = 0 \<and> \<not> result (Verification d h f)
   \<and> pinned_fingerprint (Verification d h f) = to_upper_copy f"
  by (simp add: Verification_def)

lemma default_consulted_simps:
  "default_consulted [] = False"
  "default_consulted (Log_Record sev m # evs) = default_consulted evs"
  "default_consulted (Default_Call b # evs) = True"
  "default_consulted (xs @ ys) = (default_consulted xs \<or> default_consulted ys)"
  by (auto simp add: default_consulted_def)

text \<open>
  C1. A verifier with a non-empty pinned fingerprint, invoked for chain position 1 (the
  counter, still 0, becomes 1 in this invocation; no result has been cached): the
  invocation returns true exactly when the certificate's SHA-1 fingerprint and the pinned
  value are equal up to letter case, whatever the preverified PKI result is, and it never
  calls the default PKI verifier. \<open>pin\<close> is the fingerprint as configured, which the
  constructor stores in upper case.
\<close>

theorem verify_pinned_position_1:
  assumes "pinned_fingerprint v = to_upper_copy pin" and "pin \<noteq> []"
    and "pos v = 0" and "\<not> result v"
  shows "case verify preverified ctx v of
           (r, v', evs) \<Rightarrow>
             r = (to_upper_copy (hex (X509_digest (current_cert ctx))) = to_upper_copy pin)
             \<and> \<not> default_consulted evs
             \<and> result v' = r \<and> pos v' = 1"
  using assms
  by (auto simp add: verify_def Let_def hex_upper to_upper_copy_empty
      default_consulted_simps)

theorem verify_pinned_position_1_witness:
  "(let v = Verification (\<lambda>h p c. p) ''mail.example.org'' ''ab0f'';
        leaf = \<lparr>X509_digest = [0xAB, 0x0F], X509_NAME_oneline = (\<lambda>size. ''/CN=mail'')\<rparr>;
        other = \<lparr>X509_digest = [0xAB, 0x0E], X509_NAME_oneline = (\<lambda>size. ''/CN=mail'')\<rparr>
    in fst (verify False \<lparr>current_cert = leaf, ctx_error = 18, ctx_error_string = ''self signed''\<rparr> v)
       \<and> \<not> fst (verify True \<lparr>current_cert = other, ctx_error = 0, ctx_error_string = ''ok''\<rparr> v)
       \<and> \<not> default_consulted
             (snd (snd (verify True
                \<lparr>current_cert = other, ctx_error = 0, ctx_error_string = ''ok''\<rparr> v))))"
proof -
  let ?v = "Verification (\<lambda>h p c. p) ''mail.example.org'' ''ab0f''"
  let ?leaf = "\<lparr>X509_digest = [0xAB, 0x0F], X509_NAME_oneline = (\<lambda>size. ''/CN=mail'')\<rparr>"
  let ?other = "\<lparr>X509_digest = [0xAB, 0x0E], X509_NAME_oneline = (\<lambda>size. ''/CN=mail'')\<rparr>"
  let ?c1 = "\<lparr>current_cert = ?leaf, ctx_error = 18, ctx_error_string = ''self signed''\<rparr>"
  let ?c2 = "\<lparr>current_cert = ?other, ctx_error = 0, ctx_error_string = ''ok''\<rparr>"
  have h: "pinned_fingerprint ?v = to_upper_copy ''ab0f''" "''ab0f'' \<noteq> []"
    "pos ?v = 0" "\<not> result ?v"
    by (simp_all add: Verification_def)
  have up: "to_upper_copy ''ab0f'' = ''AB0F''"
    by (simp add: to_upper_copy_def to_upper_char_def)
  have hx: "hex [0xAB, 0x0F] = ''AB0F''" "hex [0xAB, 0x0E] = ''AB0E''"
    by (simp_all add: hex_def hex_byte_def hex_digit_def)
  have up2: "to_upper_copy ''AB0F'' = ''AB0F''" "to_upper_copy ''AB0E'' = ''AB0E''"
    by (simp_all add: to_upper_copy_def to_upper_char_def)
  from verify_pinned_position_1 [OF h, where preverified = False and ctx = ?c1]
    verify_pinned_position_1 [OF h, where preverified = True and ctx = ?c2]
  show ?thesis
    by (simp add: up hx up2 split: prod.splits)
qed

text \<open>
  C10. Only a positive match is served from the cache. (a) A mismatch at position 1
  returns false and caches false, with the counter at 1. (b) Whenever no positive result
  is cached and the invocation is not the one for position 1, the call returns what the
  default PKI verifier returns for it, having called that verifier, and still no positive
  result is cached afterwards: the cached false of a mismatch is never returned.
  (c) When a positive result is cached, the call returns true without calling the default
  verifier and the result stays cached.
\<close>

theorem verify_cache_positive_only:
  "(\<not> result v \<and> pos v = 0 \<and> pinned_fingerprint v \<noteq> []
      \<and> pinned_fingerprint v \<noteq> hex (X509_digest (current_cert ctx)) \<longrightarrow>
      (case verify preverified ctx v of
         (r, v', evs) \<Rightarrow> \<not> r \<and> \<not> result v' \<and> pos v' = 1 \<and> pos v' + 1 \<noteq> 1))
   \<and> (\<not> result v \<and> pos v + 1 \<noteq> 1 \<longrightarrow>
      (case verify preverified ctx v of
         (r, v', evs) \<Rightarrow>
           r = default_verifier v preverified ctx \<and> default_consulted evs
           \<and> \<not> result v' \<and> pos v' = pos v + 1))
   \<and> (result v \<longrightarrow>
      (case verify preverified ctx v of
         (r, v', evs) \<Rightarrow> r \<and> \<not> default_consulted evs \<and> result v'))"
  by (simp add: verify_def Let_def default_consulted_simps)

theorem verify_cache_positive_only_witness:
  "(let v = Verification (\<lambda>h p c. p) ''mail.example.org'' ''AB0F'';
        leaf = \<lparr>current_cert = \<lparr>X509_digest = [0xAB, 0x0E], X509_NAME_oneline = (\<lambda>size. ''/CN=mail'')\<rparr>,
                 ctx_error = 0, ctx_error_string = ''ok''\<rparr>;
        next_cert = \<lparr>current_cert = \<lparr>X509_digest = [0x01], X509_NAME_oneline = (\<lambda>size. ''/CN=ca'')\<rparr>,
                 ctx_error = 0, ctx_error_string = ''ok''\<rparr>;
        v1 = fst (snd (verify True leaf v))
    in \<not> fst (verify True leaf v)
       \<and> fst (verify True next_cert v1)
       \<and> default_consulted (snd (snd (verify True next_cert v1)))
       \<and> fst (verify False next_cert (v1\<lparr>result := True\<rparr>))
       \<and> \<not> default_consulted (snd (snd (verify False next_cert (v1\<lparr>result := True\<rparr>)))))"
proof -
  let ?v = "Verification (\<lambda>h p c. p) ''mail.example.org'' ''AB0F''"
  let ?leaf = "\<lparr>current_cert = \<lparr>X509_digest = [0xAB, 0x0E], X509_NAME_oneline = (\<lambda>size. ''/CN=mail'')\<rparr>,
                 ctx_error = 0, ctx_error_string = ''ok''\<rparr>"
  let ?next = "\<lparr>current_cert = \<lparr>X509_digest = [0x01], X509_NAME_oneline = (\<lambda>size. ''/CN=ca'')\<rparr>,
                 ctx_error = 0, ctx_error_string = ''ok''\<rparr>"
  let ?v1 = "?v\<lparr>pos := 1\<rparr>"
  have up: "to_upper_copy ''AB0F'' = ''AB0F''"
    by (simp add: to_upper_copy_def to_upper_char_def)
  have hx: "hex [0xAB, 0x0E] = ''AB0E''"
    by (simp add: hex_def hex_byte_def hex_digit_def)
  have v: "\<not> result ?v" "pos ?v = 0" "pinned_fingerprint ?v = ''AB0F''"
    "default_verifier ?v = (\<lambda>p c. p)"
    by (simp_all add: Verification_def up)
  have a: "case verify True ?leaf ?v of (r, v', evs) \<Rightarrow> \<not> r \<and> \<not> result v' \<and> pos v' = 1"
    using verify_cache_positive_only [of ?v ?leaf True] by (simp add: v hx split: prod.splits)
  have s1: "fst (snd (verify True ?leaf ?v)) = ?v1"
    by (simp add: verify_def Let_def v hx)
  have b: "case verify True ?next ?v1 of (r, v', evs) \<Rightarrow> r \<and> default_consulted evs"
    using verify_cache_positive_only [of ?v1 ?next True] by (simp add: v split: prod.splits)
  have c: "case verify False ?next (?v1\<lparr>result := True\<rparr>) of
             (r, v', evs) \<Rightarrow> r \<and> \<not> default_consulted evs"
    using verify_cache_positive_only [of "?v1\<lparr>result := True\<rparr>" ?next False]
    by (simp split: prod.splits)
  from a b c show ?thesis
    by (simp add: s1 Let_def split: prod.splits)
qed

section \<open>Properties of the session\<close>

lemma emit_simps:
  "trace (emit e s) = trace s @ [e]"
  "state (emit e s) = state s"
  "capabilities (emit e s) = capabilities s"
  "tag_to_state (emit e s) = tag_to_state s"
  "tags (emit e s) = tags s"
  "cmd (emit e s) = cmd s"
  "uids (emit e s) = uids s"
  "flags (emit e s) = flags s"
  "opts (emit e s) = opts s"
  "signaled (emit e s) = signaled s"
  "fetched_messages (emit e s) = fetched_messages s"
  by (simp_all add: emit_def)

text \<open>
  C7. Dispatching the LOGIN step. With LOGINDISABLED among the capabilities the step
  throws, and the session at the throw is the one it started from: nothing was cleared
  and nothing was written. Otherwise the step returns the session given below, and the
  events it adds to the trace are, in this order, the clearing of the capability set and
  the write of the LOGIN command: the set is empty when the command is written, and it
  is still empty when the step returns.
\<close>

theorem do_login_capabilities:
  "(LOGINDISABLED \<in> capabilities s \<longrightarrow>
      do_login s = Inl (Error_Msg ''Cannot login because server has LOGINDISABLED'', s))
   \<and> (LOGINDISABLED \<notin> capabilities s \<longrightarrow>
      do_login s =
        Inr (s\<lparr>capabilities := {},
               tags := \<lambda>n. tags s (Suc n),
               cmd := Some (tags s 0, Cmd_Login (username (opts s)) (password (opts s))),
               tag_to_state := (tag_to_state s)(tags s 0 \<mapsto> LOGGED_IN),
               exists := 0, recent := 0, uidvalidity := 0, uids := [],
               trace := trace s @
                 [Capabilities_Clear,
                  Push_Write
                    (Some (tags s 0,
                       Cmd_Login (username (opts s)) (password (opts s))))]\<rparr>))"
  by (simp add: do_login_def capabilities_clear_def Let_def writer_def register_tag_def
      do_write_def emit_def)

lemma example_client_fields:
  "opts example_client = example_options"
  "state example_client = DISCONNECTED"
  "capabilities example_client = {}"
  "tag_to_state example_client = Map.empty"
  "tags example_client 0 = ''A0''"
  "cmd example_client = None"
  "uids example_client = []"
  "flags example_client = []"
  "signaled example_client = 0"
  "fetched_messages example_client = 0"
  "trace example_client = [Proxy_Set Memory_Buffer, Signals_Async_Wait, Async_Resolve]"
  by (simp_all add: example_client_def Client_def initial_members_def do_resolve_def
      do_signal_wait_def emit_def Let_def show_nat.simps)

theorem do_login_capabilities_witness:
  "do_login (example_client\<lparr>capabilities := {UIDPLUS, LOGINDISABLED}\<rparr>) =
     Inl (Error_Msg ''Cannot login because server has LOGINDISABLED'',
          example_client\<lparr>capabilities := {UIDPLUS, LOGINDISABLED}\<rparr>)
   \<and> \<not> isl (do_login (example_client\<lparr>capabilities := {UIDPLUS}\<rparr>))
   \<and> capabilities (projr (do_login (example_client\<lparr>capabilities := {UIDPLUS}\<rparr>))) = {}
   \<and> trace (projr (do_login (example_client\<lparr>capabilities := {UIDPLUS}\<rparr>))) =
       [Proxy_Set Memory_Buffer, Signals_Async_Wait, Async_Resolve,
        Capabilities_Clear,
        Push_Write (Some (''A0'', Cmd_Login ''juser'' ''secret''))]"
  using do_login_capabilities [of "example_client\<lparr>capabilities := {UIDPLUS, LOGINDISABLED}\<rparr>"]
    do_login_capabilities [of "example_client\<lparr>capabilities := {UIDPLUS}\<rparr>"]
  by (simp add: example_client_fields example_options_def)

text \<open>
  C9. Whenever the LOGIN step emits its command (it returns), the mailbox metadata of the
  session are reset: \<open>exists\<close>, \<open>recent\<close> and \<open>uidvalidity\<close> are 0 and no UID is recorded.
  Hence whatever UIDs \<open>ns\<close> the parser reports afterwards while fetching, in a session
  \<open>t\<close> whose UID collection is still the one the login left, the UIDs of a following
  STORE or UID EXPUNGE are exactly \<open>ns\<close>: none from before the login.
\<close>

theorem do_login_resets_mailbox:
  assumes "do_login s = Inr s'"
  shows "exists s' = 0 \<and> recent s' = 0 \<and> uidvalidity s' = 0 \<and> uids s' = []
    \<and> (\<forall>t ns. uids t = uids s' \<and> state t = FETCHING \<longrightarrow>
          (let t' = foldl (\<lambda>t n. imap_uid n t) t ns
           in uids t' = ns
              \<and> cmd (do_store t') =
                  Some (tags t' 0, Cmd_Uid_Store (Copied_From ns) [DELETED] REPLACE True)
              \<and> cmd (do_uid_expunge t') =
                  Some (tags t' 0, Cmd_Uid_Expunge (Copied_From ns))))"
proof -
  have reset: "exists s' = 0 \<and> recent s' = 0 \<and> uidvalidity s' = 0 \<and> uids s' = []"
    using assms
    by (auto simp add: do_login_def capabilities_clear_def Let_def writer_def register_tag_def do_write_def
        emit_def split: if_splits)
  have push: "state t = FETCHING \<Longrightarrow>
      uids (foldl (\<lambda>t n. imap_uid n t) t ns) = uids t @ ns
      \<and> state (foldl (\<lambda>t n. imap_uid n t) t ns) = FETCHING" for t ns
    by (induction ns arbitrary: t) (simp_all add: imap_uid_def)
  have store: "cmd (do_store u) =
      Some (tags u 0, Cmd_Uid_Store (Copied_From (uids u)) [DELETED] REPLACE True)" for u
    by (simp add: do_store_def Let_def writer_def register_tag_def do_write_def emit_def)
  have expunge: "cmd (do_uid_expunge u) =
      Some (tags u 0, Cmd_Uid_Expunge (Copied_From (uids u)))" for u
    by (simp add: do_uid_expunge_def Let_def writer_def register_tag_def do_write_def
        emit_def)
  from reset push store expunge show ?thesis
    by (simp add: Let_def)
qed

theorem do_login_resets_mailbox_witness:
  "(let s = example_client\<lparr>exists := 9, recent := 2, uidvalidity := 42, uids := [3, 5, 7]\<rparr>;
        s' = projr (do_login s);
        t' = foldl (\<lambda>t n. imap_uid n t) (s'\<lparr>state := FETCHING\<rparr>) [11, 12]
    in \<not> isl (do_login s)
       \<and> exists s' = 0 \<and> recent s' = 0 \<and> uidvalidity s' = 0 \<and> uids s' = []
       \<and> cmd (do_store t') =
           Some (''A1'', Cmd_Uid_Store (Copied_From [11, 12]) [DELETED] REPLACE True))"
proof -
  let ?s = "example_client\<lparr>exists := 9, recent := 2, uidvalidity := 42, uids := [3, 5, 7]\<rparr>"
  obtain s' where s': "do_login ?s = Inr s'"
    by (simp add: do_login_def capabilities_clear_def emit_def Let_def writer_def
        example_client_fields)
  have tag: "tags s' 0 = ''A1''"
    using s'
    by (auto simp add: do_login_def capabilities_clear_def Let_def writer_def register_tag_def do_write_def
        emit_def example_client_fields example_client_def Client_def initial_members_def
        do_resolve_def
        do_signal_wait_def show_nat.simps)
  have push: "tags (foldl (\<lambda>t n. imap_uid n t) t ns) = tags t" for t ns
    by (induction ns arbitrary: t) (simp_all add: imap_uid_def)
  have "uids (s'\<lparr>state := FETCHING\<rparr>) = uids s' \<and> state (s'\<lparr>state := FETCHING\<rparr>) = FETCHING"
    by simp
  with do_login_resets_mailbox [OF s']
  have "exists s' = 0 \<and> recent s' = 0 \<and> uidvalidity s' = 0 \<and> uids s' = []
    \<and> (let t' = foldl (\<lambda>t n. imap_uid n t) (s'\<lparr>state := FETCHING\<rparr>) [11, 12]
       in cmd (do_store t') =
            Some (tags t' 0, Cmd_Uid_Store (Copied_From [11, 12]) [DELETED] REPLACE True))"
    unfolding Let_def by blast
  with s' tag push show ?thesis
    by (simp add: Let_def del: foldl.simps)
qed

lemma imap_flag_appends: "imap_flag f s = s\<lparr>flags := flags s @ spec_flag_letter f\<rparr>"
  by (cases f) (simp_all add: spec_flag_letter_def)

lemma imap_flags_fold:
  "foldl (\<lambda>t f. imap_flag f t) s fs = s\<lparr>flags := flags s @ spec_flag_suffix fs\<rparr>"
proof (induction fs arbitrary: s)
  case Nil
  show ?case by (simp add: spec_flag_suffix_def)
next
  case (Cons f fs)
  have "foldl (\<lambda>t f. imap_flag f t) s (f # fs) =
      (imap_flag f s)\<lparr>flags := flags (imap_flag f s) @ spec_flag_suffix fs\<rparr>"
    by (simp only: foldl_Cons Cons.IH)
  then show ?case
    by (simp add: imap_flag_appends spec_flag_suffix_def)
qed

text \<open>
  C4. When a body section ends while the session is fetching and \<open>full_body\<close> is set:
  the proxy is set back to the memory buffer, then the file is closed, then the file is
  moved, to new/ when no flag letters were collected and to cur/ with the collected
  letters otherwise; \<open>full_body\<close> is cleared and the count of fetched messages goes up by
  one; nothing else of the session changes. The collected letters are those of the
  specification's table: after \<open>imap_data_fetch_begin\<close> and one \<open>imap_flag\<close> callback per
  flag of \<open>fs\<close>, in the parser's order, they are the specification's suffix for \<open>fs\<close>, and
  these callbacks leave the state and \<open>full_body\<close> as they were.
\<close>

theorem imap_body_section_end_delivers:
  "(state s = FETCHING \<and> full_body s \<longrightarrow>
      imap_body_section_end s =
        s\<lparr>buffer_proxy := Memory_Buffer,
          file_buffer := None,
          trace := trace s @
            [Proxy_Set Memory_Buffer, File_Close,
             if flags s = [] then Maildir_Move_To_New else Maildir_Move_To_Cur (flags s)],
          full_body := False,
          fetched_messages := fetched_messages s + 1\<rparr>)
   \<and> (let t = foldl (\<lambda>t f. imap_flag f t) (imap_data_fetch_begin n before) fs
      in flags t = spec_flag_suffix fs \<and> state t = state before
         \<and> full_body t = full_body before)"
  by (simp add: imap_flags_fold imap_data_fetch_begin_def imap_body_section_end_def
      emit_def Let_def)

theorem imap_body_section_end_delivers_witness:
  "(let s0 = example_client\<lparr>state := FETCHING, full_body := True, flags := ''S'',
              file_buffer := Some ''tmp.0'', buffer_proxy := File_Buffer\<rparr>;
        s = foldl (\<lambda>t f. imap_flag f t) (imap_data_fetch_begin 1 s0)
              [RECENT, FLAGGED, DELETED, ANSWERED];
        u = foldl (\<lambda>t f. imap_flag f t) (imap_data_fetch_begin 2 s0) [RECENT]
    in trace (imap_body_section_end s) =
         [Proxy_Set Memory_Buffer, Signals_Async_Wait, Async_Resolve,
          Proxy_Set Memory_Buffer, File_Close, Maildir_Move_To_Cur ''FR'']
       \<and> trace (imap_body_section_end u) =
         [Proxy_Set Memory_Buffer, Signals_Async_Wait, Async_Resolve,
          Proxy_Set Memory_Buffer, File_Close, Maildir_Move_To_New]
       \<and> fetched_messages (imap_body_section_end s) = 1
       \<and> \<not> full_body (imap_body_section_end s)
       \<and> file_buffer (imap_body_section_end s) = None
       \<and> buffer_proxy (imap_body_section_end s) = Memory_Buffer)"
proof -
  let ?before = "example_client\<lparr>state := FETCHING, full_body := True, flags := ''S'',
              file_buffer := Some ''tmp.0'', buffer_proxy := File_Buffer\<rparr>"
  let ?s = "foldl (\<lambda>t f. imap_flag f t) (imap_data_fetch_begin 1 ?before)
              [RECENT, FLAGGED, DELETED, ANSWERED]"
  let ?u = "foldl (\<lambda>t f. imap_flag f t) (imap_data_fetch_begin 2 ?before) [RECENT]"
  have suffix: "spec_flag_suffix [RECENT, FLAGGED, DELETED, ANSWERED] = ''FR''"
    "spec_flag_suffix [RECENT] = []"
    by (simp_all add: spec_flag_suffix_def spec_flag_letter_def)
  have fields: "trace (foldl (\<lambda>t f. imap_flag f t) (imap_data_fetch_begin k ?before) fs) =
      [Proxy_Set Memory_Buffer, Signals_Async_Wait, Async_Resolve]"
    "fetched_messages (foldl (\<lambda>t f. imap_flag f t) (imap_data_fetch_begin k ?before) fs) = 0"
    for k fs
    by (simp_all add: imap_flags_fold imap_data_fetch_begin_def example_client_fields)
  note s_thm = imap_body_section_end_delivers
      [where s = ?s and n = 1 and before = ?before and fs = "[RECENT, FLAGGED, DELETED, ANSWERED]"]
  note u_thm = imap_body_section_end_delivers
      [where s = ?u and n = 2 and before = ?before and fs = "[RECENT]"]
  have s_pre: "state ?s = FETCHING \<and> full_body ?s \<and> flags ?s = ''FR''"
    using s_thm [THEN conjunct2] by (simp add: Let_def suffix del: foldl.simps)
  have u_pre: "state ?u = FETCHING \<and> full_body ?u \<and> flags ?u = []"
    using u_thm [THEN conjunct2] by (simp add: Let_def suffix del: foldl.simps)
  from s_thm [THEN conjunct1] s_pre have "imap_body_section_end ?s =
      ?s\<lparr>buffer_proxy := Memory_Buffer, file_buffer := None,
         trace := trace ?s @ [Proxy_Set Memory_Buffer, File_Close, Maildir_Move_To_Cur ''FR''],
         full_body := False, fetched_messages := fetched_messages ?s + 1\<rparr>"
    by (simp del: foldl.simps)
  moreover from u_thm [THEN conjunct1] u_pre have "imap_body_section_end ?u =
      ?u\<lparr>buffer_proxy := Memory_Buffer, file_buffer := None,
         trace := trace ?u @ [Proxy_Set Memory_Buffer, File_Close, Maildir_Move_To_New],
         full_body := False, fetched_messages := fetched_messages ?u + 1\<rparr>"
    by (simp del: foldl.simps)
  ultimately show ?thesis
    by (simp add: Let_def fields del: foldl.simps)
qed

text \<open>
  C5. An error handed to the read handler. In state LOGGED_OUT a TLS short read and a
  transport end-of-file are swallowed: the handler returns and leaves the session as it
  was, so no read is enqueued. Every other error in that state, and every error in any
  other state, is thrown.
\<close>

theorem do_read_handler_error:
  assumes "is_error ec"
  shows "do_read_handler lexer_read ec input s =
    (if state s = LOGGED_OUT
        \<and> (ec = \<lparr>category = ssl_category, ec_value = ERR_PACK ERR_LIB_SSL 0 SSL_R_SHORT_READ\<rparr>
           \<or> ec = \<lparr>category = misc_category, ec_value = eof\<rparr>)
     then Inr s
     else Inl (Error_Code ec, s))"
proof -
  have "ec = \<lparr>category = c, ec_value = v\<rparr> \<longleftrightarrow> category ec = c \<and> ec_value ec = v" for c v
    by (cases ec) simp
  with assms show ?thesis
    by (simp add: do_read_handler_def)
qed

theorem do_read_handler_error_witness:
  "(let short_read = \<lparr>category = ssl_category, ec_value = 335544539\<rparr>;
        end_of_file = \<lparr>category = misc_category, ec_value = 2\<rparr>;
        reset = \<lparr>category = system_category, ec_value = 104\<rparr>;
        out = example_client\<lparr>state := LOGGED_OUT\<rparr>;
        fetching = example_client\<lparr>state := FETCHING\<rparr>
    in do_read_handler (\<lambda>bytes t. Inr t) short_read [] out = Inr out
       \<and> do_read_handler (\<lambda>bytes t. Inr t) end_of_file [] out = Inr out
       \<and> do_read_handler (\<lambda>bytes t. Inr t) reset [] out = Inl (Error_Code reset, out)
       \<and> do_read_handler (\<lambda>bytes t. Inr t) end_of_file [] fetching
           = Inl (Error_Code end_of_file, fetching))"
proof -
  have pack: "ERR_PACK ERR_LIB_SSL 0 SSL_R_SHORT_READ = 335544539"
    by (simp add: ERR_PACK_def ERR_LIB_SSL_def SSL_R_SHORT_READ_def)
  have err: "is_error \<lparr>category = ssl_category, ec_value = 335544539\<rparr>"
    "is_error \<lparr>category = misc_category, ec_value = 2\<rparr>"
    "is_error \<lparr>category = system_category, ec_value = 104\<rparr>"
    by (simp_all add: is_error_def)
  show ?thesis
    using do_read_handler_error [OF err(1), of "\<lambda>bytes t. Inr t" "[]"
        "example_client\<lparr>state := LOGGED_OUT\<rparr>"]
      do_read_handler_error [OF err(2), of "\<lambda>bytes t. Inr t" "[]"
        "example_client\<lparr>state := LOGGED_OUT\<rparr>"]
      do_read_handler_error [OF err(3), of "\<lambda>bytes t. Inr t" "[]"
        "example_client\<lparr>state := LOGGED_OUT\<rparr>"]
      do_read_handler_error [OF err(2), of "\<lambda>bytes t. Inr t" "[]"
        "example_client\<lparr>state := FETCHING\<rparr>"]
    by (simp add: Let_def pack eof_def)
qed

text \<open>
  C8. The handler of the signal wait. A cancelled wait is ignored: the handler returns
  and the session is as it was. The first delivered signal is logged, the wait is armed
  again, and the session quits: the transport is cancelled and shut down; no command is
  written, and the session remembers the signal, so that the handler of any further
  delivered signal throws the message of an immediate exit, after logging the signal.
\<close>

theorem do_signal_wait_handler_deliveries:
  "(is_error ec \<and> ec_value ec = operation_canceled \<longrightarrow>
      do_signal_wait_handler ec n s = Inr s)
   \<and> (\<not> is_error ec \<and> signaled s = 0 \<longrightarrow>
      (let s' = s\<lparr>signaled := 1,
                  trace := trace s @
                    [Log ERROR (''Got signal: '' @ show_int n),
                     Signals_Async_Wait, Cancel, Async_Shutdown]\<rparr>
       in do_signal_wait_handler ec n s = Inr s'
          \<and> (\<not> is_error ec' \<longrightarrow>
               do_signal_wait_handler ec' n' s' =
                 Inl (Error_Msg (''Got a signal ('' @ show_int n'
                        @ '') the second time - immediate exit''),
                      emit (Log ERROR (''Got signal: '' @ show_int n')) s'))))
   \<and> (\<not> is_error ec \<and> signaled s \<noteq> 0 \<longrightarrow>
      do_signal_wait_handler ec n s =
        Inl (Error_Msg (''Got a signal ('' @ show_int n
               @ '') the second time - immediate exit''),
             emit (Log ERROR (''Got signal: '' @ show_int n)) s))"
  by (simp add: do_signal_wait_handler_def Let_def do_quit_def do_shutdown_def
      do_signal_wait_def emit_def)

theorem do_signal_wait_handler_deliveries_witness:
  "(let success = \<lparr>category = system_category, ec_value = 0\<rparr>;
        cancelled = \<lparr>category = system_category, ec_value = 125\<rparr>;
        s = example_client\<lparr>state := FETCHING\<rparr>;
        s' = s\<lparr>signaled := 1,
               trace := [Proxy_Set Memory_Buffer, Signals_Async_Wait, Async_Resolve, Log ERROR ''Got signal: 2'',
                         Signals_Async_Wait, Cancel, Async_Shutdown]\<rparr>
    in do_signal_wait_handler cancelled 0 s = Inr s
       \<and> do_signal_wait_handler success 2 s = Inr s'
       \<and> do_signal_wait_handler success 15 s' =
           Inl (Error_Msg ''Got a signal (15) the second time - immediate exit'',
                emit (Log ERROR ''Got signal: 15'') s'))"
proof -
  let ?ok = "\<lparr>category = system_category, ec_value = 0\<rparr>"
  let ?cancelled = "\<lparr>category = system_category, ec_value = 125\<rparr>"
  let ?s = "example_client\<lparr>state := FETCHING\<rparr>"
  have ec: "\<not> is_error ?ok" "is_error ?cancelled"
    by (simp_all add: is_error_def)
  have sh: "show_int 2 = ''2''" "show_int 15 = ''15''"
    by (simp_all add: show_int_def show_nat.simps)
  from do_signal_wait_handler_deliveries
         [where ec = ?cancelled and s = ?s and n = 0 and ec' = ?ok and n' = 0]
    do_signal_wait_handler_deliveries
         [where ec = ?ok and s = ?s and n = 2 and ec' = ?ok and n' = 15]
  show ?thesis
    by (simp add: Let_def ec sh example_client_fields operation_canceled_def)
qed

lemma writer_registry:
  "tag_to_state (do_select s) = (tag_to_state s)(tags s 0 \<mapsto> SELECTED_MAILBOX)"
  "tag_to_state (do_logout s) = (tag_to_state s)(tags s 0 \<mapsto> LOGGED_OUT)"
  "tag_to_state (do_fetch s) = (tag_to_state s)(tags s 0 \<mapsto> FETCHED)"
  "tag_to_state (do_store s) = (tag_to_state s)(tags s 0 \<mapsto> STORED)"
  "tag_to_state (do_uid_expunge s) = (tag_to_state s)(tags s 0 \<mapsto> EXPUNGED)"
  "tag_to_state (do_expunge s) = (tag_to_state s)(tags s 0 \<mapsto> EXPUNGED)"
  by (simp_all add: do_select_def do_logout_def do_fetch_def do_store_def
      do_uid_expunge_def do_expunge_def start_fetch_timer_def resume_fetch_timer_def
      writer_def register_tag_def do_write_def emit_def Let_def)

lemma do_login_registry:
  "do_login s = Inr s' \<Longrightarrow> tag_to_state s' = (tag_to_state s)(tags s 0 \<mapsto> LOGGED_IN)"
  by (auto simp add: do_login_def capabilities_clear_def writer_def register_tag_def
      do_write_def emit_def Let_def
      split: if_splits)

lemma stop_fetch_timer_fields:
  "tag_to_state (stop_fetch_timer s) = tag_to_state s"
  "tags (stop_fetch_timer s) = tags s"
  "opts (stop_fetch_timer s) = opts s"
  "uids (stop_fetch_timer s) = uids s"
  "trace (stop_fetch_timer s) =
     trace s @ [Print_Fetch_Stats (fetched_messages s), Fetch_Timer_Cancel]"
  by (simp_all add: stop_fetch_timer_def print_fetch_stats_def emit_def)

text \<open>A dispatch registers at most one tag, the next one of the writer's supply.\<close>

lemma command_registry:
  assumes "command s = Inr s'" and "t \<noteq> tags s 0"
  shows "tag_to_state s' t = tag_to_state s t"
proof (cases "state s")
  case GOT_INITIAL_CAPABILITIES
  with assms have "do_login s = Inr s'"
    by (simp add: command.simps)
  with assms(2) show ?thesis
    by (simp add: do_login_registry)
next
  case LOGGED_IN
  show ?thesis
  proof (cases "capabilities s = {}")
    case True
    with LOGGED_IN assms show ?thesis
      by (auto simp add: command.simps do_capabilities.simps writer_def register_tag_def
          do_write_def emit_def Let_def)
  next
    case False
    with LOGGED_IN assms
    have "s' = do_select (s\<lparr>state := GOT_CAPABILITIES\<rparr>)"
      by (simp add: command.simps [of s] do_capabilities.simps [of s]
          command.simps [of "s\<lparr>state := GOT_CAPABILITIES\<rparr>"])
    with assms(2) show ?thesis
      by (simp add: writer_registry)
  qed
next
  case SELECTED_MAILBOX
  with assms show ?thesis
    by (auto simp add: command.simps do_fetch_or_logout_def writer_registry)
next
  case FETCHED
  with assms show ?thesis
    by (auto simp add: command.simps do_store_or_logout_def writer_registry
        stop_fetch_timer_fields)
next
  case STORED
  with assms show ?thesis
    by (auto simp add: command.simps do_uid_or_simple_expunge_def writer_registry)
next
  case LOGGED_OUT
  with assms show ?thesis
    by (auto simp add: command.simps do_quit_def do_shutdown_def emit_def)
qed (use assms in \<open>auto simp add: command.simps writer_registry\<close>)

text \<open>
  C3. A tagged status. If it is not OK the callback throws, and the message holds the
  response buffer. If it is OK and the echoed tag is not registered, the callback throws
  the unknown-tag message. If it is OK and the tag is registered with \<open>st\<close>, the callback
  is \<open>command\<close> run on the session \<open>s1\<close> whose state is \<open>st\<close> and whose registry no longer
  has the tag. When that dispatch returns and the writer did not hand out the same tag
  again, the tag is still absent afterwards, so a second tagged OK echoing it throws: a
  tag is consumed at most once.
\<close>

theorem imap_tagged_status_end_dispatch:
  "(c \<noteq> OK \<longrightarrow>
      imap_tagged_status_end c s =
        Inl (Error_Msg (''Command failed: '' @ show_Status c @ '' - '' @ buffer s), s))
   \<and> (tag_to_state s (tag_buffer s) = None \<longrightarrow>
      imap_tagged_status_end OK s =
        Inl (Error_Msg (''Got unknown tag: '' @ tag_buffer s), s))
   \<and> (tag_to_state s (tag_buffer s) = Some st \<longrightarrow>
      (let s1 = s\<lparr>state := st, tag_to_state := (tag_to_state s)(tag_buffer s := None)\<rparr>
       in imap_tagged_status_end OK s = command s1
          \<and> state s1 = st
          \<and> tag_to_state s1 (tag_buffer s) = None
          \<and> (\<forall>s'. command s1 = Inr s' \<and> tags s 0 \<noteq> tag_buffer s \<longrightarrow>
                tag_to_state s' (tag_buffer s) = None
                \<and> (tag_buffer s' = tag_buffer s \<longrightarrow>
                     imap_tagged_status_end OK s' =
                       Inl (Error_Msg (''Got unknown tag: '' @ tag_buffer s), s')))))"
proof (intro conjI impI)
  assume "c \<noteq> OK"
  then show "imap_tagged_status_end c s =
      Inl (Error_Msg (''Command failed: '' @ show_Status c @ '' - '' @ buffer s), s)"
    by (simp add: imap_tagged_status_end_def)
next
  assume "tag_to_state s (tag_buffer s) = None"
  then show "imap_tagged_status_end OK s =
      Inl (Error_Msg (''Got unknown tag: '' @ tag_buffer s), s)"
    by (simp add: imap_tagged_status_end_def)
next
  assume known: "tag_to_state s (tag_buffer s) = Some st"
  let ?s1 = "s\<lparr>state := st, tag_to_state := (tag_to_state s)(tag_buffer s := None)\<rparr>"
  have run: "imap_tagged_status_end OK s = command ?s1"
    using known by (simp add: imap_tagged_status_end_def)
  have later: "tag_to_state s' (tag_buffer s) = None
      \<and> (tag_buffer s' = tag_buffer s \<longrightarrow>
           imap_tagged_status_end OK s' =
             Inl (Error_Msg (''Got unknown tag: '' @ tag_buffer s), s'))"
    if "command ?s1 = Inr s'" and "tags s 0 \<noteq> tag_buffer s" for s'
  proof -
    from command_registry [OF that(1), of "tag_buffer s"] that(2)
    have gone: "tag_to_state s' (tag_buffer s) = None"
      by simp
    then show ?thesis
      by (auto simp add: imap_tagged_status_end_def)
  qed
  from run later
  show "let s1 = ?s1
    in imap_tagged_status_end OK s = command s1
       \<and> state s1 = st
       \<and> tag_to_state s1 (tag_buffer s) = None
       \<and> (\<forall>s'. command s1 = Inr s' \<and> tags s 0 \<noteq> tag_buffer s \<longrightarrow>
             tag_to_state s' (tag_buffer s) = None
             \<and> (tag_buffer s' = tag_buffer s \<longrightarrow>
                  imap_tagged_status_end OK s' =
                    Inl (Error_Msg (''Got unknown tag: '' @ tag_buffer s), s')))"
    by (simp add: Let_def)
qed

theorem imap_tagged_status_end_dispatch_witness:
  "(let s = example_client\<lparr>state := STORED, tag_to_state := [''A7'' \<mapsto> EXPUNGED],
             tag_buffer := ''A7'', buffer := ''A7 NO denied''\<rparr>;
        r = imap_tagged_status_end OK s
    in imap_tagged_status_end NO s =
         Inl (Error_Msg ''Command failed: NO - A7 NO denied'', s)
       \<and> imap_tagged_status_end OK (s\<lparr>tag_buffer := ''A9''\<rparr>) =
         Inl (Error_Msg ''Got unknown tag: A9'', s\<lparr>tag_buffer := ''A9''\<rparr>)
       \<and> \<not> isl r
       \<and> state (projr r) = LOGGING_OUT
       \<and> tag_to_state (projr r) ''A7'' = None
       \<and> imap_tagged_status_end OK (projr r) =
         Inl (Error_Msg ''Got unknown tag: A7'', projr r))"
proof -
  let ?s = "example_client\<lparr>state := STORED, tag_to_state := [''A7'' \<mapsto> EXPUNGED],
             tag_buffer := ''A7'', buffer := ''A7 NO denied''\<rparr>"
  let ?s1 = "?s\<lparr>state := EXPUNGED, tag_to_state := [''A7'' \<mapsto> EXPUNGED](''A7'' := None)\<rparr>"
  have run: "state t = EXPUNGED \<Longrightarrow> command t = Inr (do_logout t)" for t
    by (simp add: command.simps)
  have out: "state (do_logout t) = LOGGING_OUT" "tag_buffer (do_logout t) = tag_buffer t" for t
    by (simp_all add: do_logout_def writer_def register_tag_def do_write_def emit_def Let_def)
  have a: "imap_tagged_status_end NO ?s =
      Inl (Error_Msg ''Command failed: NO - A7 NO denied'', ?s)"
    using imap_tagged_status_end_dispatch [where c = NO and s = ?s and st = EXPUNGED]
    by simp
  have b: "imap_tagged_status_end OK (?s\<lparr>tag_buffer := ''A9''\<rparr>) =
      Inl (Error_Msg ''Got unknown tag: A9'', ?s\<lparr>tag_buffer := ''A9''\<rparr>)"
    using imap_tagged_status_end_dispatch
      [where c = OK and s = "?s\<lparr>tag_buffer := ''A9''\<rparr>" and st = EXPUNGED]
    by simp
  have c: "imap_tagged_status_end OK ?s = Inr (do_logout ?s1)
      \<and> tag_to_state (do_logout ?s1) ''A7'' = None
      \<and> imap_tagged_status_end OK (do_logout ?s1) =
          Inl (Error_Msg ''Got unknown tag: A7'', do_logout ?s1)"
    using imap_tagged_status_end_dispatch [where c = OK and s = ?s and st = EXPUNGED]
    by (simp add: Let_def run out example_client_fields)
  from a b c show ?thesis
    by (simp add: Let_def out)
qed

text \<open>
  C2, as stated, fails. With deletion enabled, three UIDs collected and no UIDPLUS among
  the capabilities, the dispatch in state FETCHED writes a UID STORE in mode \<open>REPLACE\<close>:
  neither a STORE without UID nor a store in mode \<open>ADD\<close>.
\<close>

theorem fetched_dispatch_writes_replace_counterexample:
  "del (opts (example_client\<lparr>state := FETCHED, uids := [3, 5, 7]\<rparr>))
   \<and> \<not> has_uidplus (example_client\<lparr>state := FETCHED, uids := [3, 5, 7]\<rparr>)
   \<and> \<not> isl (command (example_client\<lparr>state := FETCHED, uids := [3, 5, 7]\<rparr>))
   \<and> last (trace (projr (command (example_client\<lparr>state := FETCHED, uids := [3, 5, 7]\<rparr>)))) =
       Push_Write (Some (''A0'', Cmd_Uid_Store (Copied_From [3, 5, 7]) [DELETED] REPLACE True))
   \<and> last (trace (projr (command (example_client\<lparr>state := FETCHED, uids := [3, 5, 7]\<rparr>)))) \<noteq>
       Push_Write (Some (''A0'', Cmd_Uid_Store (Copied_From [3, 5, 7]) [DELETED] ADD True))"
  by (simp add: command.simps do_store_or_logout_def do_store_def stop_fetch_timer_def
      print_fetch_stats_def writer_def register_tag_def do_write_def emit_def Let_def
      has_uidplus_def example_client_fields example_options_def)

text \<open>
  C2, amended. Whenever deletion is enabled and the dispatch runs in state FETCHED, it
  stops the fetch timer and then writes, as its only command, a UID STORE, with or without
  UIDPLUS among the capabilities, in replace mode and silent, of the one flag
  \<^verbatim>\<open>\Deleted\<close>, over the UIDs collected; the command's tag is registered for STORED.
\<close>

theorem command_fetched_store:
  assumes "del (opts s)" and "state s = FETCHED"
  shows "\<exists>s'. command s = Inr s'
    \<and> trace s' = trace s @
        [Print_Fetch_Stats (fetched_messages s), Fetch_Timer_Cancel,
         Push_Write (Some (tags s 0,
           Cmd_Uid_Store (Copied_From (uids s)) [DELETED] REPLACE True))]
    \<and> tag_to_state s' = (tag_to_state s)(tags s 0 \<mapsto> STORED)
    \<and> state s' = FETCHED"
  using assms
  by (simp add: command.simps do_store_or_logout_def do_store_def stop_fetch_timer_def
      print_fetch_stats_def writer_def register_tag_def do_write_def emit_def Let_def)

theorem command_fetched_store_witness:
  "trace (projr (command (example_client
      \<lparr>state := FETCHED, uids := [3, 5, 7], capabilities := {UIDPLUS}\<rparr>))) =
     [Proxy_Set Memory_Buffer, Signals_Async_Wait, Async_Resolve, Print_Fetch_Stats 0, Fetch_Timer_Cancel,
      Push_Write (Some (''A0'', Cmd_Uid_Store (Copied_From [3, 5, 7]) [DELETED] REPLACE True))]"
proof -
  let ?s = "example_client\<lparr>state := FETCHED, uids := [3, 5, 7], capabilities := {UIDPLUS}\<rparr>"
  have "del (opts ?s)" "state ?s = FETCHED"
    by (simp_all add: example_client_fields example_options_def)
  from command_fetched_store [OF this] show ?thesis
    by (auto simp add: example_client_fields)
qed



end
